theory Spec2Isabelle
  imports Complex_Main
begin

section \<open>Research paper to blog converter: the pipeline of app.py\<close>

text \<open>
  The program is one script: three helper functions (\<open>get_pdf_text\<close>,
  \<open>get_text_chunks\<close>, \<open>get_vectorstore\<close>) and the block that runs when a PDF has
  been uploaded. Everything else is a call into a library (PyMuPDF, langchain, FAISS, the
  Groq client) or into the user interface (streamlit). The libraries are not part of the
  program, so they are parameters of the model, collected in the record \<open>env\<close>: each
  library call either raises a Python \<open>Exception\<close> or returns a value. The user
  interface is an output: every \<open>st.*\<close> call and every library call is appended to a
  trace of events, in program order. The statements that run before an upload (loading
  the credentials, lines 15 to 30, and drawing the page, lines 102 to 106) are not part of
  the model.
\<close>

subsection \<open>Python values\<close>

text \<open>
  A Python \<open>str\<close> is a sequence of code points and \<open>len\<close> counts code points, so a
  string is a list of code points here. \<open>ascii\<close> injects an ASCII literal.
\<close>

type_synonym str = "nat list"

type_synonym bytes = "char list"

definition ascii :: "string \<Rightarrow> str" where
  "ascii cs = map of_char cs"

text \<open>\<open>str(n)\<close> for a non-negative integer, as the f-string of line 120 formats \<open>len(raw_text)\<close>.\<close>

fun str_of_nat :: "nat \<Rightarrow> str" where
  "str_of_nat n = (if n < 10 then [48 + n] else str_of_nat (n div 10) @ [48 + n mod 10])"

declare str_of_nat.simps [simp del]

text \<open>
  A caught exception \<open>e\<close> is used by the program only through \<open>f"{e}"\<close>, so an
  exception is its message \<open>str(e)\<close>. All exceptions of the model are instances of
  \<open>Exception\<close>, which is what every \<open>except\<close> clause of the program catches.
\<close>

type_synonym exn = str

subsection \<open>The libraries\<close>

text \<open>
  An opened PyMuPDF document, as \<open>get_pdf_text\<close> uses it: iterating it loads the pages in
  order and \<open>page.get_text()\<close> gives the text of each, where either step may raise;
  \<open>doc.close()\<close> may raise too.
\<close>

record document =
  pages :: "(exn + str) list"
  close_raises :: "exn option"

text \<open>The keyword arguments of \<open>CharacterTextSplitter(...)\<close>, lines 46 to 51.\<close>

record splitter_kwargs =
  separator :: str
  chunk_size :: int
  chunk_overlap :: int
  length_function :: "str \<Rightarrow> int"

text \<open>The keyword arguments of \<open>ChatGroq(...)\<close>, lines 131 to 135.\<close>

record groq_kwargs =
  model_name :: str
  temperature :: rat
  request_timeout :: int

text \<open>\<open>PromptTemplate(input_variables=..., template=...)\<close>, lines 96 to 99.\<close>

record prompt_template =
  input_variables :: "str list"
  template_text :: str

text \<open>
  The library calls of the program. The embedding model, the vector store, the retriever,
  the chat model client and the chain are opaque objects (type parameters).
  \<open>NamedTemporaryFile_write\<close> stands for lines 110 to 112: it reads the upload, writes
  it to a new temporary file and gives the path of the file.
  \<open>split_text kw text\<close> stands for \<open>CharacterTextSplitter(**kw).split_text(text)\<close>.
  \<open>invoke\<close> takes the dictionary of the call as a list of its items and gives the
  dictionary of the response.
\<close>

record ('emb, 'vs, 'retr, 'llm, 'chain) env =
  NamedTemporaryFile_write :: "bytes \<Rightarrow> exn + str"
  fitz_open :: "str \<Rightarrow> exn + document"
  split_text :: "splitter_kwargs \<Rightarrow> str \<Rightarrow> exn + str list"
  HuggingFaceEmbeddings :: "str \<Rightarrow> exn + 'emb"
  FAISS_from_texts :: "str list \<Rightarrow> 'emb \<Rightarrow> exn + 'vs"
  ChatGroq :: "groq_kwargs \<Rightarrow> exn + 'llm"
  as_retriever :: "'vs \<Rightarrow> exn + 'retr"
  RetrievalQA_from_chain_type :: "'llm \<Rightarrow> 'retr \<Rightarrow> prompt_template \<Rightarrow> exn + 'chain"
  invoke :: "'chain \<Rightarrow> (str \<times> str) list \<Rightarrow> exn + (str \<rightharpoonup> str)"

subsection \<open>The trace\<close>

datatype event =
    St_spinner str
  | St_error str
  | St_success str
  | St_subheader str
  | St_write str
  | St_download_button str str str str
  | Call_NamedTemporaryFile bytes
  | Call_fitz_open str
  | Call_split_text splitter_kwargs str
  | Call_HuggingFaceEmbeddings str
  | Call_FAISS_from_texts "str list"
  | Call_ChatGroq groq_kwargs
  | Call_as_retriever
  | Call_RetrievalQA_from_chain_type prompt_template
  | Call_invoke "(str \<times> str) list"

text \<open>The emoji of the messages, by code point.\<close>

definition emoji_check :: str where "emoji_check = [0x2705]"
definition emoji_magnifier :: str where "emoji_magnifier = [0x1F50D]"
definition emoji_link :: str where "emoji_link = [0x1F517]"
definition emoji_robot :: str where "emoji_robot = [0x1F916]"
definition emoji_memo :: str where "emoji_memo = [0x1F4DD]"
definition emoji_inbox :: str where "emoji_inbox = [0x1F4E5]"

subsection \<open>\<open>get_pdf_text\<close>, lines 33 to 42\<close>

text \<open>
  The loop \<open>for page in doc: text += page.get_text()\<close>: the text accumulated so far,
  and the exception that ended the loop if one did.
\<close>

fun read_pages :: "(exn + str) list \<Rightarrow> str \<Rightarrow> str \<times> exn option" where
  "read_pages [] text = (text, None)"
| "read_pages (Inl e # ps) text = (text, Some e)"
| "read_pages (Inr t # ps) text = read_pages ps (text @ t)"

definition extraction_error :: "exn \<Rightarrow> event" where
  "extraction_error e = St_error (ascii ''Error extracting text from PDF: '' @ e)"

definition get_pdf_text ::
  "('emb, 'vs, 'retr, 'llm, 'chain) env \<Rightarrow> str \<Rightarrow> str \<times> event list" where
  "get_pdf_text E pdf_file_path =
     (case fitz_open E pdf_file_path of
        Inl e \<Rightarrow> ([], [Call_fitz_open pdf_file_path, extraction_error e])
      | Inr doc \<Rightarrow>
          (case read_pages (pages doc) [] of
             (text, Some e) \<Rightarrow> (text, [Call_fitz_open pdf_file_path, extraction_error e])
           | (text, None) \<Rightarrow>
               (case close_raises doc of
                  Some e \<Rightarrow> (text, [Call_fitz_open pdf_file_path, extraction_error e])
                | None \<Rightarrow> (text, [Call_fitz_open pdf_file_path]))))"

subsection \<open>\<open>get_text_chunks\<close>, lines 45 to 52\<close>

definition chunker_kwargs :: splitter_kwargs where
  "chunker_kwargs =
     \<lparr>separator = [10], chunk_size = 1000, chunk_overlap = 200,
      length_function = (\<lambda>s. int (length s))\<rparr>"

text \<open>The function has no handler of its own: an exception of the splitter propagates.\<close>

definition get_text_chunks ::
  "('emb, 'vs, 'retr, 'llm, 'chain) env \<Rightarrow> str \<Rightarrow> (exn + str list) \<times> event list" where
  "get_text_chunks E text =
     (split_text E chunker_kwargs text, [Call_split_text chunker_kwargs text])"

subsection \<open>\<open>get_vectorstore\<close>, lines 55 to 66\<close>

definition embedding_model :: str where
  "embedding_model = ascii ''sentence-transformers/all-MiniLM-L6-v2''"

definition embedding_error :: "exn \<Rightarrow> event" where
  "embedding_error e =
     St_error (ascii ''Failed to load embedding model. Please check your HuggingFace token and internet connection.''
               @ [10] @ ascii ''Error: '' @ e)"

definition get_vectorstore ::
  "('emb, 'vs, 'retr, 'llm, 'chain) env \<Rightarrow> str list \<Rightarrow> 'vs option \<times> event list" where
  "get_vectorstore E chunks =
     (case HuggingFaceEmbeddings E embedding_model of
        Inl e \<Rightarrow> (None, [Call_HuggingFaceEmbeddings embedding_model, embedding_error e])
      | Inr embeddings \<Rightarrow>
          (case FAISS_from_texts E chunks embeddings of
             Inl e \<Rightarrow>
               (None, [Call_HuggingFaceEmbeddings embedding_model,
                       Call_FAISS_from_texts chunks, embedding_error e])
           | Inr vectorstore \<Rightarrow>
               (Some vectorstore, [Call_HuggingFaceEmbeddings embedding_model,
                                   Call_FAISS_from_texts chunks])))"

subsection \<open>The prompt, lines 69 to 99\<close>

definition template_lines :: "string list" where
  "template_lines =
     [''You are an expert science communicator. Based on the content of the research paper below, write a blog-style explainer suitable for a non-expert audience.'',
      '''',
      ''Follow this format:'',
      '''',
      ''Title: (Make it catchy and easy to understand)'',
      '''',
      ''1. The Problem'',
      ''- What problem does the paper address?'',
      ''- Why is it important?'',
      '''',
      ''2. The Approach'',
      ''- What method or idea is proposed?'',
      ''- How does it work in simple terms?'',
      '''',
      ''3. Key Takeaways'',
      ''- What are the key findings?'',
      ''- How can this be useful?'',
      '''',
      ''Write in a conversational tone, use analogies, and avoid technical jargon. The goal is to help general readers understand and appreciate the research.'',
      '''',
      ''Context: {context}'',
      ''Research Paper Text: {question}'',
      '''',
      ''Generate a blog-style summary below:'']"

text \<open>The triple-quoted literal starts and ends with a newline.\<close>

definition template :: str where
  "template = concat (map (\<lambda>l. 10 # ascii l) template_lines) @ [10]"

definition prompt :: prompt_template where
  "prompt = \<lparr>input_variables = [ascii ''context'', ascii ''question''],
             template_text = template\<rparr>"

subsection \<open>The summarization block, lines 129 to 146\<close>

definition llm_kwargs :: groq_kwargs where
  "llm_kwargs =
     \<lparr>model_name = ascii ''meta-llama/llama-4-scout-17b-16e-instruct'',
      temperature = 7 / 10,
      request_timeout = 30\<rparr>"

definition summary_error :: "exn \<Rightarrow> event" where
  "summary_error e = St_error (ascii ''Error generating summary: '' @ e)"

text \<open>\<open>str(KeyError('result'))\<close>, raised by \<open>response["result"]\<close> on a missing key.\<close>

definition key_error_result :: exn where
  "key_error_result = [39] @ ascii ''result'' @ [39]"

text \<open>
  The \<open>try\<close> block of lines 130 to 146. The result is \<open>blog_summary\<close>: \<open>None\<close> is
  Python's \<open>None\<close>, assigned by the handler.
\<close>

definition generate_summary ::
  "('emb, 'vs, 'retr, 'llm, 'chain) env \<Rightarrow> 'vs \<Rightarrow> str \<Rightarrow> str option \<times> event list" where
  "generate_summary E vectorstore raw_text =
     (case ChatGroq E llm_kwargs of
        Inl e \<Rightarrow> (None, [Call_ChatGroq llm_kwargs, summary_error e])
      | Inr llm \<Rightarrow>
     (case as_retriever E vectorstore of
        Inl e \<Rightarrow> (None, [Call_ChatGroq llm_kwargs, Call_as_retriever, summary_error e])
      | Inr retriever \<Rightarrow>
     (case RetrievalQA_from_chain_type E llm retriever prompt of
        Inl e \<Rightarrow>
          (None, [Call_ChatGroq llm_kwargs, Call_as_retriever,
                  Call_RetrievalQA_from_chain_type prompt, summary_error e])
      | Inr qa_chain \<Rightarrow>
     (case invoke E qa_chain [(ascii ''query'', raw_text)] of
        Inl e \<Rightarrow>
          (None, [Call_ChatGroq llm_kwargs, Call_as_retriever,
                  Call_RetrievalQA_from_chain_type prompt,
                  Call_invoke [(ascii ''query'', raw_text)], summary_error e])
      | Inr response \<Rightarrow>
     (case response (ascii ''result'') of
        None \<Rightarrow>
          (None, [Call_ChatGroq llm_kwargs, Call_as_retriever,
                  Call_RetrievalQA_from_chain_type prompt,
                  Call_invoke [(ascii ''query'', raw_text)], summary_error key_error_result])
      | Some blog_summary \<Rightarrow>
          (Some blog_summary,
           [Call_ChatGroq llm_kwargs, Call_as_retriever,
            Call_RetrievalQA_from_chain_type prompt,
            Call_invoke [(ascii ''query'', raw_text)]]))))))"

subsection \<open>The display of the summary, lines 148 to 151\<close>

text \<open>\<open>if blog_summary:\<close> is false for \<open>None\<close> and for the empty string.\<close>

definition show_summary :: "str option \<Rightarrow> event list" where
  "show_summary blog_summary =
     (case blog_summary of
        None \<Rightarrow> []
      | Some s \<Rightarrow>
          if s = [] then []
          else [St_subheader (emoji_memo @ ascii '' Blog Summary''),
                St_write s,
                St_download_button (emoji_inbox @ ascii '' Download Summary'') s
                  (ascii ''summary.txt'') (ascii ''text/plain'')])"

subsection \<open>The upload handler, lines 108 to 153\<close>

text \<open>Lines 126 to 151: what follows a vector store that is not \<open>None\<close>.\<close>

definition summarize_stage ::
  "('emb, 'vs, 'retr, 'llm, 'chain) env \<Rightarrow> 'vs \<Rightarrow> str \<Rightarrow> event list" where
  "summarize_stage E vectorstore raw_text =
     [St_success (emoji_check @ ascii '' Vectorstore created successfully.''),
      St_spinner (emoji_robot @ ascii '' Generating blog-style summary...'')]
     @ snd (generate_summary E vectorstore raw_text)
     @ show_summary (fst (generate_summary E vectorstore raw_text))"

definition outer_error :: "exn \<Rightarrow> event" where
  "outer_error e = St_error (ascii ''An error occurred: '' @ e)"

text \<open>Lines 119 to 151: what follows a non-empty \<open>raw_text\<close>.\<close>

definition index_stage ::
  "('emb, 'vs, 'retr, 'llm, 'chain) env \<Rightarrow> str \<Rightarrow> event list" where
  "index_stage E raw_text =
     [St_success (emoji_check @ ascii '' Extracted '' @ str_of_nat (length raw_text)
                  @ ascii '' characters from the PDF.''),
      St_spinner (emoji_link @ ascii '' Splitting and indexing text...'')]
     @ snd (get_text_chunks E raw_text)
     @ (case fst (get_text_chunks E raw_text) of
          Inl e \<Rightarrow> [outer_error e]
        | Inr text_chunks \<Rightarrow>
            snd (get_vectorstore E text_chunks)
            @ (case fst (get_vectorstore E text_chunks) of
                 None \<Rightarrow> []
               | Some vectorstore \<Rightarrow> summarize_stage E vectorstore raw_text))"

definition no_text_message :: str where
  "no_text_message = ascii ''No text could be extracted from the PDF.''"

text \<open>
  One run of the script with the state of the upload control: \<open>None\<close> when no file has
  been uploaded, the bytes of the file otherwise. The result is the trace of the run.
\<close>

definition upload_handler ::
  "('emb, 'vs, 'retr, 'llm, 'chain) env \<Rightarrow> bytes option \<Rightarrow> event list" where
  "upload_handler E pdf_file =
     (case pdf_file of
        None \<Rightarrow> []
      | Some content \<Rightarrow>
          Call_NamedTemporaryFile content #
          (case NamedTemporaryFile_write E content of
             Inl e \<Rightarrow> [outer_error e]
           | Inr tmp_path \<Rightarrow>
               St_spinner (emoji_magnifier @ ascii '' Extracting text from PDF...'')
               # snd (get_pdf_text E tmp_path)
               @ (if fst (get_pdf_text E tmp_path) = [] then [St_error no_text_message]
                  else index_stage E (fst (get_pdf_text E tmp_path)))))"

subsection \<open>Reading a trace\<close>

fun error_of :: "event \<Rightarrow> str list" where
  "error_of (St_error m) = [m]"
| "error_of _ = []"

definition errors_reported :: "event list \<Rightarrow> str list" where
  "errors_reported tr = concat (map error_of tr)"

fun written_of :: "event \<Rightarrow> str list" where
  "written_of (St_write s) = [s]"
| "written_of _ = []"

definition summaries_shown :: "event list \<Rightarrow> str list" where
  "summaries_shown tr = concat (map written_of tr)"

text \<open>A download offer: the data, the file name and the content type.\<close>

fun download_of :: "event \<Rightarrow> (str \<times> str \<times> str) list" where
  "download_of (St_download_button label data file_name mime) = [(data, file_name, mime)]"
| "download_of _ = []"

definition downloads_offered :: "event list \<Rightarrow> (str \<times> str \<times> str) list" where
  "downloads_offered tr = concat (map download_of tr)"

fun query_of :: "event \<Rightarrow> (str \<times> str) list list" where
  "query_of (Call_invoke q) = [q]"
| "query_of _ = []"

definition queries_issued :: "event list \<Rightarrow> (str \<times> str) list list" where
  "queries_issued tr = concat (map query_of tr)"

fun client_of :: "event \<Rightarrow> groq_kwargs list" where
  "client_of (Call_ChatGroq kw) = [kw]"
| "client_of _ = []"

definition clients_configured :: "event list \<Rightarrow> groq_kwargs list" where
  "clients_configured tr = concat (map client_of tr)"

fun is_chunking_call :: "event \<Rightarrow> bool" where
  "is_chunking_call (Call_split_text kw text) = True"
| "is_chunking_call _ = False"

fun is_indexing_call :: "event \<Rightarrow> bool" where
  "is_indexing_call (Call_HuggingFaceEmbeddings m) = True"
| "is_indexing_call (Call_FAISS_from_texts chunks) = True"
| "is_indexing_call _ = False"

fun is_summarization_call :: "event \<Rightarrow> bool" where
  "is_summarization_call (Call_ChatGroq kw) = True"
| "is_summarization_call Call_as_retriever = True"
| "is_summarization_call (Call_RetrievalQA_from_chain_type p) = True"
| "is_summarization_call (Call_invoke q) = True"
| "is_summarization_call _ = False"

definition chunking_calls :: "event list \<Rightarrow> event list" where
  "chunking_calls tr = filter is_chunking_call tr"

definition indexing_calls :: "event list \<Rightarrow> event list" where
  "indexing_calls tr = filter is_indexing_call tr"

definition summarization_calls :: "event list \<Rightarrow> event list" where
  "summarization_calls tr = filter is_summarization_call tr"

subsection \<open>Reading a run\<close>

text \<open>
  Whether a run reaches line 126 with a vector store that is not \<open>None\<close>, and if so
  the vector store and the \<open>raw_text\<close> that the summarization block works with.
\<close>

definition summarization_input ::
  "('emb, 'vs, 'retr, 'llm, 'chain) env \<Rightarrow> bytes \<Rightarrow> ('vs \<times> str) option" where
  "summarization_input E content =
     (case NamedTemporaryFile_write E content of
        Inl e \<Rightarrow> None
      | Inr tmp_path \<Rightarrow>
          if fst (get_pdf_text E tmp_path) = [] then None
          else (case fst (get_text_chunks E (fst (get_pdf_text E tmp_path))) of
                  Inl e \<Rightarrow> None
                | Inr text_chunks \<Rightarrow>
                    (case fst (get_vectorstore E text_chunks) of
                       None \<Rightarrow> None
                     | Some vectorstore \<Rightarrow> Some (vectorstore, fst (get_pdf_text E tmp_path)))))"

text \<open>Whether lines 131 to 140 construct the client, the retriever and the chain.\<close>

definition chain_built :: "('emb, 'vs, 'retr, 'llm, 'chain) env \<Rightarrow> 'vs \<Rightarrow> bool" where
  "chain_built E vectorstore =
     (case ChatGroq E llm_kwargs of
        Inl e \<Rightarrow> False
      | Inr llm \<Rightarrow>
          (case as_retriever E vectorstore of
             Inl e \<Rightarrow> False
           | Inr retriever \<Rightarrow>
               (case RetrievalQA_from_chain_type E llm retriever prompt of
                  Inl e \<Rightarrow> False
                | Inr qa_chain \<Rightarrow> True)))"

text \<open>
  The exception that lines 131 to 140 raise, if they do: that of the client, else that of
  the retriever, else that of the chain.
\<close>

definition construction_error ::
  "('emb, 'vs, 'retr, 'llm, 'chain) env \<Rightarrow> 'vs \<Rightarrow> exn option" where
  "construction_error E vectorstore =
     (case ChatGroq E llm_kwargs of
        Inl e \<Rightarrow> Some e
      | Inr llm \<Rightarrow>
          (case as_retriever E vectorstore of
             Inl e \<Rightarrow> Some e
           | Inr retriever \<Rightarrow>
               (case RetrievalQA_from_chain_type E llm retriever prompt of
                  Inl e \<Rightarrow> Some e
                | Inr qa_chain \<Rightarrow> None)))"

text \<open>
  What the libraries answer to lines 131 to 143, read off the library calls alone: the
  first exception in the order of the calls, where a response without the key
  \<open>result\<close> raises \<open>KeyError\<close>, or else the \<open>result\<close> entry of the response.
\<close>

definition model_reply ::
  "('emb, 'vs, 'retr, 'llm, 'chain) env \<Rightarrow> 'vs \<Rightarrow> str \<Rightarrow> exn + str" where
  "model_reply E vectorstore raw_text =
     (case ChatGroq E llm_kwargs of
        Inl e \<Rightarrow> Inl e
      | Inr llm \<Rightarrow>
     (case as_retriever E vectorstore of
        Inl e \<Rightarrow> Inl e
      | Inr retriever \<Rightarrow>
     (case RetrievalQA_from_chain_type E llm retriever prompt of
        Inl e \<Rightarrow> Inl e
      | Inr qa_chain \<Rightarrow>
     (case invoke E qa_chain [(ascii ''query'', raw_text)] of
        Inl e \<Rightarrow> Inl e
      | Inr response \<Rightarrow>
     (case response (ascii ''result'') of
        None \<Rightarrow> Inl key_error_result
      | Some s \<Rightarrow> Inr s)))))"

text \<open>The texts of the pages that come before the first page that raises.\<close>

fun texts_before_failure :: "(exn + str) list \<Rightarrow> str list" where
  "texts_before_failure [] = []"
| "texts_before_failure (Inl e # ps) = []"
| "texts_before_failure (Inr t # ps) = t # texts_before_failure ps"

text \<open>The exception of the first page that raises, if a page does.\<close>

fun first_failure :: "(exn + str) list \<Rightarrow> exn option" where
  "first_failure [] = None"
| "first_failure (Inl e # ps) = Some e"
| "first_failure (Inr t # ps) = first_failure ps"

definition cannot_open :: "('emb, 'vs, 'retr, 'llm, 'chain) env \<Rightarrow> str \<Rightarrow> bool" where
  "cannot_open E path = isl (fitz_open E path)"

definition cannot_parse :: "('emb, 'vs, 'retr, 'llm, 'chain) env \<Rightarrow> str \<Rightarrow> bool" where
  "cannot_parse E path =
     (case fitz_open E path of Inl e \<Rightarrow> False | Inr doc \<Rightarrow> list_ex isl (pages doc))"

subsection \<open>Sample documents and libraries\<close>

text \<open>
  Libraries for concrete runs: the temporary file is written, the PDF opens as the given
  document, the splitter returns the text as one chunk, the index is built from any
  embedding model, and the embedding model, the chat client and the reply of the chain are
  as given.
\<close>

definition sample_env ::
  "document \<Rightarrow> exn + unit \<Rightarrow> exn + unit \<Rightarrow> exn + (str \<rightharpoonup> str)
     \<Rightarrow> (unit, unit, unit, unit, unit) env" where
  "sample_env doc emb llm reply =
     \<lparr>NamedTemporaryFile_write = (\<lambda>content. Inr (ascii ''/tmp/tmpab12.pdf'')),
      fitz_open = (\<lambda>path. Inr doc),
      split_text = (\<lambda>kw text. Inr [text]),
      HuggingFaceEmbeddings = (\<lambda>name. emb),
      FAISS_from_texts = (\<lambda>chunks e. Inr ()),
      ChatGroq = (\<lambda>kw. llm),
      as_retriever = (\<lambda>vs. Inr ()),
      RetrievalQA_from_chain_type = (\<lambda>l r p. Inr ()),
      invoke = (\<lambda>chain q. reply)\<rparr>"

definition hello_doc :: document where
  "hello_doc = \<lparr>pages = [Inr (ascii ''Hello world.'')], close_raises = None\<rparr>"

definition broken_doc :: document where
  "broken_doc = \<lparr>pages = [Inr (ascii ''Abstract''), Inl (ascii ''cannot load page 2'')],
                 close_raises = None\<rparr>"

definition empty_doc :: document where
  "empty_doc = \<lparr>pages = [], close_raises = None\<rparr>"

section \<open>Properties\<close>

subsection \<open>Traces of concatenated stages\<close>

lemma errors_reported_simps [simp]:
  "errors_reported [] = []"
  "errors_reported (ev # tr) = error_of ev @ errors_reported tr"
  "errors_reported (tr @ tr') = errors_reported tr @ errors_reported tr'"
  by (simp_all add: errors_reported_def)

lemma summaries_shown_simps [simp]:
  "summaries_shown [] = []"
  "summaries_shown (ev # tr) = written_of ev @ summaries_shown tr"
  "summaries_shown (tr @ tr') = summaries_shown tr @ summaries_shown tr'"
  by (simp_all add: summaries_shown_def)

lemma downloads_offered_simps [simp]:
  "downloads_offered [] = []"
  "downloads_offered (ev # tr) = download_of ev @ downloads_offered tr"
  "downloads_offered (tr @ tr') = downloads_offered tr @ downloads_offered tr'"
  by (simp_all add: downloads_offered_def)

lemma queries_issued_simps [simp]:
  "queries_issued [] = []"
  "queries_issued (ev # tr) = query_of ev @ queries_issued tr"
  "queries_issued (tr @ tr') = queries_issued tr @ queries_issued tr'"
  by (simp_all add: queries_issued_def)

lemma clients_configured_simps [simp]:
  "clients_configured [] = []"
  "clients_configured (ev # tr) = client_of ev @ clients_configured tr"
  "clients_configured (tr @ tr') = clients_configured tr @ clients_configured tr'"
  by (simp_all add: clients_configured_def)

subsection \<open>The events of each function\<close>

lemma read_pages_texts:
  "fst (read_pages ps acc) = acc @ concat (texts_before_failure ps)"
  by (induction ps acc rule: read_pages.induct) simp_all

lemma read_pages_failure:
  "(snd (read_pages ps acc) = None) = (\<not> list_ex isl ps)"
  by (induction ps acc rule: read_pages.induct) simp_all

lemma read_pages_first_failure:
  "snd (read_pages ps acc) = first_failure ps"
  by (induction ps acc rule: read_pages.induct) simp_all

lemma first_failure_None_iff:
  "(first_failure ps = None) = (\<not> list_ex isl ps)"
  by (induction ps rule: first_failure.induct) simp_all

lemma texts_before_failure_all_ok: "texts_before_failure (map Inr texts) = texts"
  by (induction texts) simp_all

lemma get_pdf_text_quiet:
  "summaries_shown (snd (get_pdf_text E p)) = []"
  "downloads_offered (snd (get_pdf_text E p)) = []"
  "queries_issued (snd (get_pdf_text E p)) = []"
  "clients_configured (snd (get_pdf_text E p)) = []"
  "chunking_calls (snd (get_pdf_text E p)) = []"
  "indexing_calls (snd (get_pdf_text E p)) = []"
  "summarization_calls (snd (get_pdf_text E p)) = []"
  by (simp_all add: get_pdf_text_def extraction_error_def
        chunking_calls_def indexing_calls_def summarization_calls_def
        split: sum.splits prod.splits option.splits)

text \<open>The result of \<open>get_pdf_text\<close> on a PDF that opens.\<close>

lemma get_pdf_text_opened:
  assumes "fitz_open E path = Inr doc"
  shows "get_pdf_text E path =
           (concat (texts_before_failure (pages doc)),
            Call_fitz_open path #
            (case first_failure (pages doc) of
               Some e \<Rightarrow> [extraction_error e]
             | None \<Rightarrow>
                 (case close_raises doc of Some e \<Rightarrow> [extraction_error e] | None \<Rightarrow> [])))"
proof -
  obtain acc r where rp: "read_pages (pages doc) [] = (acc, r)"
    by (cases "read_pages (pages doc) []")
  have "acc = concat (texts_before_failure (pages doc))"
    using read_pages_texts [of "pages doc" "[]"] rp by simp
  moreover have "r = first_failure (pages doc)"
    using read_pages_first_failure [of "pages doc" "[]"] rp by simp
  ultimately show ?thesis
    using assms rp by (simp add: get_pdf_text_def split: option.splits)
qed

lemma get_text_chunks_quiet:
  "errors_reported (snd (get_text_chunks E t)) = []"
  "summaries_shown (snd (get_text_chunks E t)) = []"
  "downloads_offered (snd (get_text_chunks E t)) = []"
  "queries_issued (snd (get_text_chunks E t)) = []"
  "clients_configured (snd (get_text_chunks E t)) = []"
  "summarization_calls (snd (get_text_chunks E t)) = []"
  by (simp_all add: get_text_chunks_def summarization_calls_def)

lemma get_vectorstore_quiet:
  "summaries_shown (snd (get_vectorstore E cs)) = []"
  "downloads_offered (snd (get_vectorstore E cs)) = []"
  "queries_issued (snd (get_vectorstore E cs)) = []"
  "clients_configured (snd (get_vectorstore E cs)) = []"
  "summarization_calls (snd (get_vectorstore E cs)) = []"
  by (simp_all add: get_vectorstore_def embedding_error_def summarization_calls_def
        split: sum.splits)

lemma get_vectorstore_errors:
  "errors_reported (snd (get_vectorstore E cs)) = [] \<longleftrightarrow> fst (get_vectorstore E cs) \<noteq> None"
  by (simp add: get_vectorstore_def embedding_error_def split: sum.splits)

lemma generate_summary_quiet:
  "summaries_shown (snd (generate_summary E vs t)) = []"
  "downloads_offered (snd (generate_summary E vs t)) = []"
  "clients_configured (snd (generate_summary E vs t)) = [llm_kwargs]"
  by (simp_all add: generate_summary_def summary_error_def split: sum.splits option.splits)

lemma generate_summary_queries:
  "queries_issued (snd (generate_summary E vs t)) =
     (if chain_built E vs then [[(ascii ''query'', t)]] else [])"
  by (simp add: generate_summary_def chain_built_def summary_error_def
        split: sum.splits option.splits)

lemma generate_summary_errors:
  "errors_reported (snd (generate_summary E vs t)) = [] \<longleftrightarrow> fst (generate_summary E vs t) \<noteq> None"
  by (simp add: generate_summary_def summary_error_def split: sum.splits option.splits)

text \<open>The summarization block against the answers of the libraries.\<close>

lemma generate_summary_reply:
  "fst (generate_summary E vs t) =
     (case model_reply E vs t of Inl e \<Rightarrow> None | Inr s \<Rightarrow> Some s)"
  "errors_reported (snd (generate_summary E vs t)) =
     (case model_reply E vs t of
        Inl e \<Rightarrow> [ascii ''Error generating summary: '' @ e]
      | Inr s \<Rightarrow> [])"
  by (simp_all add: generate_summary_def model_reply_def summary_error_def
        split: sum.splits option.splits)

lemma chain_built_iff: "chain_built E vs = (construction_error E vs = None)"
  by (simp add: chain_built_def construction_error_def split: sum.splits)

lemma construction_error_reply:
  "construction_error E vs = Some e \<Longrightarrow> model_reply E vs t = Inl e"
  by (auto simp: construction_error_def model_reply_def split: sum.splits)

lemma show_summary_quiet:
  "errors_reported (show_summary r) = []"
  "queries_issued (show_summary r) = []"
  "clients_configured (show_summary r) = []"
  "summarization_calls (show_summary r) = []"
  by (simp_all add: show_summary_def summarization_calls_def split: option.splits)

lemma ascii_eq_Nil [simp]: "(ascii cs = []) = (cs = [])"
  by (simp add: ascii_def)

lemma run_summaries_shown:
  "summaries_shown (upload_handler E (Some content)) =
     (case summarization_input E content of
        None \<Rightarrow> []
      | Some (vs, t) \<Rightarrow> summaries_shown (show_summary (fst (generate_summary E vs t))))"
  by (auto simp: upload_handler_def index_stage_def summarization_input_def
        summarize_stage_def outer_error_def no_text_message_def
        get_pdf_text_quiet get_text_chunks_quiet get_vectorstore_quiet generate_summary_quiet
        split: sum.splits option.splits prod.splits)

lemma run_downloads_offered:
  "downloads_offered (upload_handler E (Some content)) =
     (case summarization_input E content of
        None \<Rightarrow> []
      | Some (vs, t) \<Rightarrow> downloads_offered (show_summary (fst (generate_summary E vs t))))"
  by (auto simp: upload_handler_def index_stage_def summarization_input_def
        summarize_stage_def outer_error_def no_text_message_def
        get_pdf_text_quiet get_text_chunks_quiet get_vectorstore_quiet generate_summary_quiet
        split: sum.splits option.splits prod.splits)

lemma run_queries_issued:
  "queries_issued (upload_handler E (Some content)) =
     (case summarization_input E content of
        None \<Rightarrow> []
      | Some (vs, t) \<Rightarrow> if chain_built E vs then [[(ascii ''query'', t)]] else [])"
  by (auto simp: upload_handler_def index_stage_def summarization_input_def
        summarize_stage_def outer_error_def no_text_message_def
        get_pdf_text_quiet get_text_chunks_quiet get_vectorstore_quiet generate_summary_queries
        show_summary_quiet
        split: sum.splits option.splits prod.splits)

lemma run_clients_configured:
  "clients_configured (upload_handler E (Some content)) =
     (case summarization_input E content of None \<Rightarrow> [] | Some (vs, t) \<Rightarrow> [llm_kwargs])"
  by (auto simp: upload_handler_def index_stage_def summarization_input_def
        summarize_stage_def outer_error_def no_text_message_def
        get_pdf_text_quiet get_text_chunks_quiet get_vectorstore_quiet generate_summary_quiet
        show_summary_quiet
        split: sum.splits option.splits prod.splits)

lemma run_summarization_calls:
  "summarization_input E content = None \<Longrightarrow>
   summarization_calls (upload_handler E (Some content)) = []"
  using get_pdf_text_quiet(7) [of E] get_text_chunks_quiet(6) [of E]
    get_vectorstore_quiet(5) [of E]
  by (auto simp: upload_handler_def index_stage_def summarization_input_def
        outer_error_def no_text_message_def summarization_calls_def
        split: sum.splits option.splits prod.splits)

lemma summarization_input_text:
  "summarization_input E content = Some (vs, t) \<Longrightarrow>
   \<exists>p. NamedTemporaryFile_write E content = Inr p \<and> t = fst (get_pdf_text E p) \<and> t \<noteq> []"
  by (auto simp: summarization_input_def split: sum.splits option.splits if_splits)

lemma show_summary_shown:
  "summaries_shown (show_summary r) =
     (case r of None \<Rightarrow> [] | Some s \<Rightarrow> if s = [] then [] else [s])"
  "downloads_offered (show_summary r) =
     map (\<lambda>s. (s, ascii ''summary.txt'', ascii ''text/plain'')) (summaries_shown (show_summary r))"
  by (simp_all add: show_summary_def split: option.splits)

lemma run_errors_reported:
  assumes "summarization_input E content = Some (vs, t)"
    and "NamedTemporaryFile_write E content = Inr p"
  shows "errors_reported (upload_handler E (Some content)) =
           errors_reported (snd (get_pdf_text E p))
           @ errors_reported (snd (generate_summary E vs t))"
proof -
  from assms obtain cs where
    t: "t = fst (get_pdf_text E p)" "t \<noteq> []" and
    cs: "fst (get_text_chunks E t) = Inr cs" and
    gv: "fst (get_vectorstore E cs) = Some vs"
    by (auto simp: summarization_input_def split: sum.splits option.splits if_splits)
  have "errors_reported (snd (get_vectorstore E cs)) = []"
    using gv by (simp add: get_vectorstore_errors)
  then show ?thesis
    using assms(2) t cs gv
    by (simp add: upload_handler_def index_stage_def summarize_stage_def
          get_text_chunks_quiet show_summary_quiet)
qed

text \<open>The keyword arguments that \<open>get_text_chunks\<close> passes to the splitter.\<close>

lemma chunker_kwargs_fields:
  "separator chunker_kwargs = [10]"
  "chunk_size chunker_kwargs = 1000"
  "chunk_overlap chunker_kwargs = 200"
  "length_function chunker_kwargs s = int (length s)"
  by (simp_all add: chunker_kwargs_def)

subsection \<open>Extraction\<close>

text \<open>
  Claim C3. A valid, text-bearing PDF is one that opens, every page of which loads and
  gives its text, that closes, and at least one page of which has text. For such a PDF
  \<open>get_pdf_text\<close> returns the concatenation of the page texts in page order, the
  result is not empty, and no error is reported.
\<close>

theorem get_pdf_text_valid_pdf:
  assumes "fitz_open E path = Inr doc"
    and "pages doc = map Inr texts"
    and "close_raises doc = None"
    and "\<exists>t \<in> set texts. t \<noteq> []"
  shows "fst (get_pdf_text E path) = concat texts
         \<and> fst (get_pdf_text E path) \<noteq> []
         \<and> errors_reported (snd (get_pdf_text E path)) = []"
proof -
  have "read_pages (pages doc) [] = (concat texts, None)"
    using read_pages_texts [of "pages doc" "[]"] read_pages_failure [of "pages doc" "[]"] assms(2)
    by (cases "read_pages (pages doc) []") (simp add: texts_before_failure_all_ok list_ex_iff)
  then show ?thesis
    using assms by (auto simp: get_pdf_text_def)
qed

theorem get_pdf_text_valid_pdf_witness:
  "fitz_open (sample_env hello_doc (Inr ()) (Inr ()) (Inl [])) (ascii ''paper.pdf'') = Inr hello_doc
   \<and> pages hello_doc = map Inr [ascii ''Hello world.'']
   \<and> close_raises hello_doc = None
   \<and> (\<exists>t \<in> set [ascii ''Hello world.'']. t \<noteq> [])
   \<and> fst (get_pdf_text (sample_env hello_doc (Inr ()) (Inr ()) (Inl [])) (ascii ''paper.pdf''))
       = concat [ascii ''Hello world.'']
   \<and> fst (get_pdf_text (sample_env hello_doc (Inr ()) (Inr ()) (Inl [])) (ascii ''paper.pdf'')) \<noteq> []
   \<and> errors_reported
        (snd (get_pdf_text (sample_env hello_doc (Inr ()) (Inr ()) (Inl [])) (ascii ''paper.pdf''))) = []"
proof -
  have a: "fitz_open (sample_env hello_doc (Inr ()) (Inr ()) (Inl [])) (ascii ''paper.pdf'') = Inr hello_doc"
    by (simp add: sample_env_def)
  have b: "pages hello_doc = map Inr [ascii ''Hello world.'']"
    by (simp add: hello_doc_def)
  have c: "close_raises hello_doc = None"
    by (simp add: hello_doc_def)
  have d: "\<exists>t \<in> set [ascii ''Hello world.'']. t \<noteq> []"
    by simp
  show ?thesis
    using a b c d get_pdf_text_valid_pdf [OF a b c d] by simp
qed

text \<open>
  Claim C4, as stated, fails: when a page raises after earlier pages gave text,
  \<open>get_pdf_text\<close> returns the text accumulated so far, not the empty string. Here
  page 1 gives \<open>Abstract\<close> and page 2 raises.
\<close>

theorem get_pdf_text_partial_counterexample:
  "cannot_parse (sample_env broken_doc (Inr ()) (Inr ()) (Inl [])) (ascii ''paper.pdf'')
   \<and> fst (get_pdf_text (sample_env broken_doc (Inr ()) (Inr ()) (Inl [])) (ascii ''paper.pdf''))
       = ascii ''Abstract''
   \<and> fst (get_pdf_text (sample_env broken_doc (Inr ()) (Inr ()) (Inl [])) (ascii ''paper.pdf'')) \<noteq> []"
  by (simp add: cannot_parse_def get_pdf_text_def sample_env_def broken_doc_def)

text \<open>
  Claim C4, amended. When the PDF cannot be opened, \<open>get_pdf_text\<close> returns the empty
  string and reports \<open>Error extracting text from PDF:\<close> followed by the text of the
  exception of \<open>fitz.open\<close>. When the PDF opens, the result is the concatenation of the
  texts of the pages before the first page that raises (all pages if none does), and when a
  page raises, the one error reported is \<open>Error extracting text from PDF:\<close> followed by
  the text of the exception of that page. The function returns in every case: its result
  has no exceptional branch.
\<close>

theorem get_pdf_text_failure:
  "(\<forall>e. fitz_open E path = Inl e \<longrightarrow>
        get_pdf_text E path =
          ([], [Call_fitz_open path,
                St_error (ascii ''Error extracting text from PDF: '' @ e)]))
   \<and> (\<forall>doc. fitz_open E path = Inr doc \<longrightarrow>
         fst (get_pdf_text E path) = concat (texts_before_failure (pages doc))
         \<and> (\<forall>e. first_failure (pages doc) = Some e \<longrightarrow>
               errors_reported (snd (get_pdf_text E path))
                 = [ascii ''Error extracting text from PDF: '' @ e]))
   \<and> (cannot_open E path \<longrightarrow> (\<exists>e. fitz_open E path = Inl e))
   \<and> (cannot_parse E path \<longrightarrow>
         (\<exists>doc e. fitz_open E path = Inr doc \<and> first_failure (pages doc) = Some e))"
proof -
  have a: "\<forall>e. fitz_open E path = Inl e \<longrightarrow>
        get_pdf_text E path =
          ([], [Call_fitz_open path,
                St_error (ascii ''Error extracting text from PDF: '' @ e)])"
    by (simp add: get_pdf_text_def extraction_error_def)
  have b: "\<forall>doc. fitz_open E path = Inr doc \<longrightarrow>
         fst (get_pdf_text E path) = concat (texts_before_failure (pages doc))
         \<and> (\<forall>e. first_failure (pages doc) = Some e \<longrightarrow>
               errors_reported (snd (get_pdf_text E path))
                 = [ascii ''Error extracting text from PDF: '' @ e])"
    by (simp add: get_pdf_text_opened extraction_error_def)
  have c: "cannot_open E path \<longrightarrow> (\<exists>e. fitz_open E path = Inl e)"
    by (cases "fitz_open E path") (simp_all add: cannot_open_def)
  have d: "cannot_parse E path \<longrightarrow>
         (\<exists>doc e. fitz_open E path = Inr doc \<and> first_failure (pages doc) = Some e)"
    using first_failure_None_iff
    by (cases "fitz_open E path") (auto simp: cannot_parse_def)
  show ?thesis
    using a b c d by blast
qed

theorem get_pdf_text_failure_witness:
  "cannot_parse (sample_env broken_doc (Inr ()) (Inr ()) (Inl [])) (ascii ''paper.pdf'')
   \<and> fitz_open (sample_env broken_doc (Inr ()) (Inr ()) (Inl [])) (ascii ''paper.pdf'')
       = Inr broken_doc
   \<and> first_failure (pages broken_doc) = Some (ascii ''cannot load page 2'')
   \<and> fst (get_pdf_text (sample_env broken_doc (Inr ()) (Inr ()) (Inl [])) (ascii ''paper.pdf''))
       = ascii ''Abstract''
   \<and> errors_reported
        (snd (get_pdf_text (sample_env broken_doc (Inr ()) (Inr ()) (Inl [])) (ascii ''paper.pdf'')))
       = [ascii ''Error extracting text from PDF: '' @ ascii ''cannot load page 2'']
   \<and> cannot_open
        ((sample_env hello_doc (Inr ()) (Inr ()) (Inl []))
           \<lparr>fitz_open := (\<lambda>path. Inl (ascii ''cannot open broken document''))\<rparr>)
        (ascii ''paper.pdf'')
   \<and> get_pdf_text
        ((sample_env hello_doc (Inr ()) (Inr ()) (Inl []))
           \<lparr>fitz_open := (\<lambda>path. Inl (ascii ''cannot open broken document''))\<rparr>)
        (ascii ''paper.pdf'')
       = ([], [Call_fitz_open (ascii ''paper.pdf''),
               St_error (ascii ''Error extracting text from PDF: ''
                         @ ascii ''cannot open broken document'')])"
proof -
  have a: "cannot_parse (sample_env broken_doc (Inr ()) (Inr ()) (Inl [])) (ascii ''paper.pdf'')"
    by (simp add: cannot_parse_def sample_env_def broken_doc_def)
  have b: "fitz_open (sample_env broken_doc (Inr ()) (Inr ()) (Inl [])) (ascii ''paper.pdf'')
       = Inr broken_doc"
    by (simp add: sample_env_def)
  have c: "first_failure (pages broken_doc) = Some (ascii ''cannot load page 2'')"
    by (simp add: broken_doc_def)
  have t: "concat (texts_before_failure (pages broken_doc)) = ascii ''Abstract''"
    by (simp add: broken_doc_def)
  have o: "cannot_open
        ((sample_env hello_doc (Inr ()) (Inr ()) (Inl []))
           \<lparr>fitz_open := (\<lambda>path. Inl (ascii ''cannot open broken document''))\<rparr>)
        (ascii ''paper.pdf'')"
    by (simp add: cannot_open_def)
  have f: "fitz_open
        ((sample_env hello_doc (Inr ()) (Inr ()) (Inl []))
           \<lparr>fitz_open := (\<lambda>path. Inl (ascii ''cannot open broken document''))\<rparr>)
        (ascii ''paper.pdf'') = Inl (ascii ''cannot open broken document'')"
    by simp
  show ?thesis
    using a b c t o f
      get_pdf_text_failure
        [of "sample_env broken_doc (Inr ()) (Inr ()) (Inl [])" "ascii ''paper.pdf''"]
      get_pdf_text_failure
        [of "(sample_env hello_doc (Inr ()) (Inr ()) (Inl []))
               \<lparr>fitz_open := (\<lambda>path. Inl (ascii ''cannot open broken document''))\<rparr>"
            "ascii ''paper.pdf''"]
    by simp
qed

subsection \<open>The run\<close>

text \<open>
  Claim C5. In a run in which extraction returns the empty string, the trace is the write
  of the temporary file, the extraction spinner, the events of the extraction and then the
  error \<open>No text could be extracted from the PDF.\<close>; the run makes no chunking, no
  indexing and no summarization call.
\<close>

theorem no_text_halts_run:
  assumes "NamedTemporaryFile_write E content = Inr tmp_path"
    and "fst (get_pdf_text E tmp_path) = []"
  shows "upload_handler E (Some content) =
           [Call_NamedTemporaryFile content,
            St_spinner (emoji_magnifier @ ascii '' Extracting text from PDF...'')]
           @ snd (get_pdf_text E tmp_path)
           @ [St_error (ascii ''No text could be extracted from the PDF.'')]
         \<and> chunking_calls (upload_handler E (Some content)) = []
         \<and> indexing_calls (upload_handler E (Some content)) = []
         \<and> summarization_calls (upload_handler E (Some content)) = []"
  using assms get_pdf_text_quiet(5,6,7) [of E tmp_path]
  by (simp add: upload_handler_def no_text_message_def chunking_calls_def indexing_calls_def
        summarization_calls_def)

theorem no_text_halts_run_witness:
  "NamedTemporaryFile_write (sample_env empty_doc (Inr ()) (Inr ()) (Inl [])) ''%PDF-1.4''
     = Inr (ascii ''/tmp/tmpab12.pdf'')
   \<and> fst (get_pdf_text (sample_env empty_doc (Inr ()) (Inr ()) (Inl [])) (ascii ''/tmp/tmpab12.pdf'')) = []
   \<and> upload_handler (sample_env empty_doc (Inr ()) (Inr ()) (Inl [])) (Some ''%PDF-1.4'') =
       [Call_NamedTemporaryFile ''%PDF-1.4'',
        St_spinner (emoji_magnifier @ ascii '' Extracting text from PDF...''),
        Call_fitz_open (ascii ''/tmp/tmpab12.pdf''),
        St_error (ascii ''No text could be extracted from the PDF.'')]
   \<and> chunking_calls (upload_handler (sample_env empty_doc (Inr ()) (Inr ()) (Inl [])) (Some ''%PDF-1.4'')) = []
   \<and> indexing_calls (upload_handler (sample_env empty_doc (Inr ()) (Inr ()) (Inl [])) (Some ''%PDF-1.4'')) = []
   \<and> summarization_calls (upload_handler (sample_env empty_doc (Inr ()) (Inr ()) (Inl [])) (Some ''%PDF-1.4'')) = []"
proof -
  have a: "NamedTemporaryFile_write (sample_env empty_doc (Inr ()) (Inr ()) (Inl [])) ''%PDF-1.4''
     = Inr (ascii ''/tmp/tmpab12.pdf'')"
    by (simp add: sample_env_def)
  have b: "get_pdf_text (sample_env empty_doc (Inr ()) (Inr ()) (Inl [])) (ascii ''/tmp/tmpab12.pdf'')
     = ([], [Call_fitz_open (ascii ''/tmp/tmpab12.pdf'')])"
    by (simp add: get_pdf_text_def sample_env_def empty_doc_def)
  have c: "fst (get_pdf_text (sample_env empty_doc (Inr ()) (Inr ()) (Inl [])) (ascii ''/tmp/tmpab12.pdf'')) = []"
    using b by simp
  show ?thesis
    using a c no_text_halts_run [OF a c] by (simp add: b chunking_calls_def indexing_calls_def summarization_calls_def)
qed

text \<open>
  Claim C6. When the embedding model cannot be loaded, \<open>get_vectorstore\<close> returns
  \<open>None\<close> after reporting the error \<open>Failed to load embedding model. ...\<close>, without
  calling \<open>FAISS.from_texts\<close>; and a run with such libraries makes no summarization
  call (no client, no retriever on an index, no chain, no query), shows no summary and
  offers no download.
\<close>

theorem embedding_failure_stops_run:
  assumes "HuggingFaceEmbeddings E embedding_model = Inl e"
  shows "get_vectorstore E chunks =
           (None,
            [Call_HuggingFaceEmbeddings embedding_model,
             St_error (ascii ''Failed to load embedding model. Please check your HuggingFace token and internet connection.''
                       @ [10] @ ascii ''Error: '' @ e)])
         \<and> summarization_calls (upload_handler E (Some content)) = []
         \<and> summaries_shown (upload_handler E (Some content)) = []
         \<and> downloads_offered (upload_handler E (Some content)) = []"
proof -
  have gv: "\<And>cs. get_vectorstore E cs =
      (None, [Call_HuggingFaceEmbeddings embedding_model, embedding_error e])"
    using assms by (simp add: get_vectorstore_def)
  have si: "summarization_input E content = None"
    by (simp add: summarization_input_def gv split: sum.splits)
  show ?thesis
    using run_summarization_calls [OF si]
    by (simp add: gv embedding_error_def run_summaries_shown run_downloads_offered si)
qed

theorem embedding_failure_stops_run_witness:
  "HuggingFaceEmbeddings (sample_env hello_doc (Inl (ascii ''401 Unauthorized'')) (Inr ()) (Inl []))
     embedding_model = Inl (ascii ''401 Unauthorized'')
   \<and> fst (get_vectorstore (sample_env hello_doc (Inl (ascii ''401 Unauthorized'')) (Inr ()) (Inl []))
        [ascii ''Hello world.'']) = None
   \<and> summarization_calls
        (upload_handler (sample_env hello_doc (Inl (ascii ''401 Unauthorized'')) (Inr ()) (Inl []))
           (Some ''%PDF-1.4'')) = []
   \<and> upload_handler (sample_env hello_doc (Inl (ascii ''401 Unauthorized'')) (Inr ()) (Inl []))
        (Some ''%PDF-1.4'') =
       [Call_NamedTemporaryFile ''%PDF-1.4'',
        St_spinner (emoji_magnifier @ ascii '' Extracting text from PDF...''),
        Call_fitz_open (ascii ''/tmp/tmpab12.pdf''),
        St_success (emoji_check @ ascii '' Extracted '' @ ascii ''12'' @ ascii '' characters from the PDF.''),
        St_spinner (emoji_link @ ascii '' Splitting and indexing text...''),
        Call_split_text chunker_kwargs (ascii ''Hello world.''),
        Call_HuggingFaceEmbeddings embedding_model,
        embedding_error (ascii ''401 Unauthorized'')]"
proof -
  have a: "HuggingFaceEmbeddings (sample_env hello_doc (Inl (ascii ''401 Unauthorized'')) (Inr ()) (Inl []))
     embedding_model = Inl (ascii ''401 Unauthorized'')"
    by (simp add: sample_env_def)
  have "length (ascii ''Hello world.'') = 12"
    by (simp add: ascii_def)
  moreover have "str_of_nat 12 = ascii ''12''"
    by (simp add: str_of_nat.simps ascii_def)
  ultimately have n: "str_of_nat (length (ascii ''Hello world.'')) = ascii ''12''"
    by simp
  have r: "upload_handler (sample_env hello_doc (Inl (ascii ''401 Unauthorized'')) (Inr ()) (Inl []))
        (Some ''%PDF-1.4'') =
       [Call_NamedTemporaryFile ''%PDF-1.4'',
        St_spinner (emoji_magnifier @ ascii '' Extracting text from PDF...''),
        Call_fitz_open (ascii ''/tmp/tmpab12.pdf''),
        St_success (emoji_check @ ascii '' Extracted '' @ ascii ''12'' @ ascii '' characters from the PDF.''),
        St_spinner (emoji_link @ ascii '' Splitting and indexing text...''),
        Call_split_text chunker_kwargs (ascii ''Hello world.''),
        Call_HuggingFaceEmbeddings embedding_model,
        embedding_error (ascii ''401 Unauthorized'')]"
    by (simp add: upload_handler_def index_stage_def get_pdf_text_def get_text_chunks_def
          get_vectorstore_def sample_env_def hello_doc_def n)
  show ?thesis
    using a r
      embedding_failure_stops_run [OF a, of "[ascii ''Hello world.'']" "''%PDF-1.4''"]
    by simp
qed

subsection \<open>Summarization and display\<close>

text \<open>
  Claim C7, as stated, fails: the summary is not displayed exactly when summarization
  succeeds. Here the chain replies with the empty string: \<open>generate_summary\<close> succeeds,
  with no error, and the run shows no summary and offers no download.
\<close>

theorem empty_summary_counterexample:
  "summarization_input
     (sample_env hello_doc (Inr ()) (Inr ()) (Inr [ascii ''result'' \<mapsto> []])) ''%PDF-1.4''
     = Some ((), ascii ''Hello world.'')
   \<and> generate_summary
       (sample_env hello_doc (Inr ()) (Inr ()) (Inr [ascii ''result'' \<mapsto> []])) () (ascii ''Hello world.'')
     = (Some [],
        [Call_ChatGroq llm_kwargs, Call_as_retriever, Call_RetrievalQA_from_chain_type prompt,
         Call_invoke [(ascii ''query'', ascii ''Hello world.'')]])
   \<and> summaries_shown
       (upload_handler
          (sample_env hello_doc (Inr ()) (Inr ()) (Inr [ascii ''result'' \<mapsto> []])) (Some ''%PDF-1.4'')) = []
   \<and> downloads_offered
       (upload_handler
          (sample_env hello_doc (Inr ()) (Inr ()) (Inr [ascii ''result'' \<mapsto> []])) (Some ''%PDF-1.4'')) = []"
proof -
  have si: "summarization_input
     (sample_env hello_doc (Inr ()) (Inr ()) (Inr [ascii ''result'' \<mapsto> []])) ''%PDF-1.4''
     = Some ((), ascii ''Hello world.'')"
    by (simp add: summarization_input_def get_pdf_text_def get_text_chunks_def
          get_vectorstore_def sample_env_def hello_doc_def)
  have gs: "generate_summary
       (sample_env hello_doc (Inr ()) (Inr ()) (Inr [ascii ''result'' \<mapsto> []])) () (ascii ''Hello world.'')
     = (Some [],
        [Call_ChatGroq llm_kwargs, Call_as_retriever, Call_RetrievalQA_from_chain_type prompt,
         Call_invoke [(ascii ''query'', ascii ''Hello world.'')]])"
    by (simp add: generate_summary_def sample_env_def)
  show ?thesis
    by (simp add: si gs run_summaries_shown run_downloads_offered show_summary_def)
qed

text \<open>
  Claim C7, amended. When the client, the retriever and the chain are constructed and the
  chain answers the query with a response whose \<open>result\<close> entry is \<open>s\<close>, the
  summarization block gives \<open>s\<close> and reports no error; when one of these calls raises
  or the response has no \<open>result\<close> entry, it gives \<open>None\<close> and reports exactly one
  error, \<open>Error generating summary:\<close> followed by the text of that exception. A run
  shows a summary exactly when it reaches the block and the libraries answer with a text
  that is not empty; what it shows is that text, and what it offers for download is that
  text under the file name \<open>summary.txt\<close> with content type \<open>text/plain\<close>. In every
  other run, among them the runs in which the answer is the empty string, nothing is shown
  and nothing is offered. The last conjunct is the run in which every library call
  succeeds, from the upload to the answer.
\<close>

theorem summary_shown_iff_nonempty:
  "(\<forall>llm retriever qa_chain response s.
       ChatGroq E llm_kwargs = Inr llm
     \<and> as_retriever E vs = Inr retriever
     \<and> RetrievalQA_from_chain_type E llm retriever prompt = Inr qa_chain
     \<and> invoke E qa_chain [(ascii ''query'', t)] = Inr response
     \<and> response (ascii ''result'') = Some s
     \<longrightarrow> model_reply E vs t = Inr s
         \<and> generate_summary E vs t =
             (Some s,
              [Call_ChatGroq llm_kwargs, Call_as_retriever,
               Call_RetrievalQA_from_chain_type prompt,
               Call_invoke [(ascii ''query'', t)]]))
   \<and> fst (generate_summary E vs t) =
       (case model_reply E vs t of Inl e \<Rightarrow> None | Inr s \<Rightarrow> Some s)
   \<and> errors_reported (snd (generate_summary E vs t)) =
       (case model_reply E vs t of
          Inl e \<Rightarrow> [ascii ''Error generating summary: '' @ e]
        | Inr s \<Rightarrow> [])
   \<and> summaries_shown (upload_handler E (Some content)) =
       (case summarization_input E content of
          None \<Rightarrow> []
        | Some (vs', t') \<Rightarrow>
            (case model_reply E vs' t' of
               Inl e \<Rightarrow> []
             | Inr s \<Rightarrow> if s = [] then [] else [s]))
   \<and> downloads_offered (upload_handler E (Some content)) =
       (case summarization_input E content of
          None \<Rightarrow> []
        | Some (vs', t') \<Rightarrow>
            (case model_reply E vs' t' of
               Inl e \<Rightarrow> []
             | Inr s \<Rightarrow>
                 if s = [] then [] else [(s, ascii ''summary.txt'', ascii ''text/plain'')]))
   \<and> (\<forall>p doc texts cs emb vs' llm retriever qa_chain response s.
         NamedTemporaryFile_write E content = Inr p
       \<and> fitz_open E p = Inr doc
       \<and> pages doc = map Inr texts
       \<and> concat texts \<noteq> []
       \<and> split_text E chunker_kwargs (concat texts) = Inr cs
       \<and> HuggingFaceEmbeddings E embedding_model = Inr emb
       \<and> FAISS_from_texts E cs emb = Inr vs'
       \<and> ChatGroq E llm_kwargs = Inr llm
       \<and> as_retriever E vs' = Inr retriever
       \<and> RetrievalQA_from_chain_type E llm retriever prompt = Inr qa_chain
       \<and> invoke E qa_chain [(ascii ''query'', concat texts)] = Inr response
       \<and> response (ascii ''result'') = Some s
       \<and> s \<noteq> []
       \<longrightarrow> summaries_shown (upload_handler E (Some content)) = [s]
           \<and> downloads_offered (upload_handler E (Some content))
               = [(s, ascii ''summary.txt'', ascii ''text/plain'')])"
proof -
  have a: "\<forall>llm retriever qa_chain response s.
       ChatGroq E llm_kwargs = Inr llm
     \<and> as_retriever E vs = Inr retriever
     \<and> RetrievalQA_from_chain_type E llm retriever prompt = Inr qa_chain
     \<and> invoke E qa_chain [(ascii ''query'', t)] = Inr response
     \<and> response (ascii ''result'') = Some s
     \<longrightarrow> model_reply E vs t = Inr s
         \<and> generate_summary E vs t =
             (Some s,
              [Call_ChatGroq llm_kwargs, Call_as_retriever,
               Call_RetrievalQA_from_chain_type prompt,
               Call_invoke [(ascii ''query'', t)]])"
    by (simp add: model_reply_def generate_summary_def)
  have c: "summaries_shown (upload_handler E (Some content)) =
       (case summarization_input E content of
          None \<Rightarrow> []
        | Some (vs', t') \<Rightarrow>
            (case model_reply E vs' t' of
               Inl e \<Rightarrow> []
             | Inr s \<Rightarrow> if s = [] then [] else [s]))"
    by (simp add: run_summaries_shown show_summary_shown(1) generate_summary_reply(1)
          split: option.splits sum.splits)
  have d: "downloads_offered (upload_handler E (Some content)) =
       (case summarization_input E content of
          None \<Rightarrow> []
        | Some (vs', t') \<Rightarrow>
            (case model_reply E vs' t' of
               Inl e \<Rightarrow> []
             | Inr s \<Rightarrow>
                 if s = [] then [] else [(s, ascii ''summary.txt'', ascii ''text/plain'')]))"
    by (simp add: run_downloads_offered show_summary_shown generate_summary_reply(1)
          split: option.splits sum.splits)
  have e: "\<forall>p doc texts cs emb vs' llm retriever qa_chain response s.
         NamedTemporaryFile_write E content = Inr p
       \<and> fitz_open E p = Inr doc
       \<and> pages doc = map Inr texts
       \<and> concat texts \<noteq> []
       \<and> split_text E chunker_kwargs (concat texts) = Inr cs
       \<and> HuggingFaceEmbeddings E embedding_model = Inr emb
       \<and> FAISS_from_texts E cs emb = Inr vs'
       \<and> ChatGroq E llm_kwargs = Inr llm
       \<and> as_retriever E vs' = Inr retriever
       \<and> RetrievalQA_from_chain_type E llm retriever prompt = Inr qa_chain
       \<and> invoke E qa_chain [(ascii ''query'', concat texts)] = Inr response
       \<and> response (ascii ''result'') = Some s
       \<and> s \<noteq> []
       \<longrightarrow> summaries_shown (upload_handler E (Some content)) = [s]
           \<and> downloads_offered (upload_handler E (Some content))
               = [(s, ascii ''summary.txt'', ascii ''text/plain'')]"
  proof (intro allI impI, elim conjE)
    fix p doc texts cs emb vs' llm retriever qa_chain response s
    assume w: "NamedTemporaryFile_write E content = Inr p"
      and o: "fitz_open E p = Inr doc"
      and pg: "pages doc = map Inr texts"
      and ne: "concat texts \<noteq> []"
      and sp: "split_text E chunker_kwargs (concat texts) = Inr cs"
      and hf: "HuggingFaceEmbeddings E embedding_model = Inr emb"
      and fa: "FAISS_from_texts E cs emb = Inr vs'"
      and lib: "ChatGroq E llm_kwargs = Inr llm" "as_retriever E vs' = Inr retriever"
        "RetrievalQA_from_chain_type E llm retriever prompt = Inr qa_chain"
        "invoke E qa_chain [(ascii ''query'', concat texts)] = Inr response"
        "response (ascii ''result'') = Some s"
      and s: "s \<noteq> []"
    have tx: "fst (get_pdf_text E p) = concat texts"
      using get_pdf_text_opened [OF o] pg by (simp add: texts_before_failure_all_ok)
    have si: "summarization_input E content = Some (vs', concat texts)"
      using w tx ne sp hf fa
      by (simp add: summarization_input_def get_text_chunks_def get_vectorstore_def)
    have mr: "model_reply E vs' (concat texts) = Inr s"
      using lib by (simp add: model_reply_def)
    show "summaries_shown (upload_handler E (Some content)) = [s]
           \<and> downloads_offered (upload_handler E (Some content))
               = [(s, ascii ''summary.txt'', ascii ''text/plain'')]"
      using c d si mr s by simp
  qed
  show ?thesis
    using a c d e generate_summary_reply [of E vs t] by blast
qed

theorem summary_shown_iff_nonempty_witness:
  "model_reply
     (sample_env hello_doc (Inr ()) (Inr ()) (Inr [ascii ''result'' \<mapsto> ascii ''A blog post.'']))
     () (ascii ''Hello world.'') = Inr (ascii ''A blog post.'')
   \<and> generate_summary
       (sample_env hello_doc (Inr ()) (Inr ()) (Inr [ascii ''result'' \<mapsto> ascii ''A blog post.'']))
       () (ascii ''Hello world.'')
     = (Some (ascii ''A blog post.''),
        [Call_ChatGroq llm_kwargs, Call_as_retriever, Call_RetrievalQA_from_chain_type prompt,
         Call_invoke [(ascii ''query'', ascii ''Hello world.'')]])
   \<and> summaries_shown (upload_handler
          (sample_env hello_doc (Inr ()) (Inr ()) (Inr [ascii ''result'' \<mapsto> ascii ''A blog post.'']))
          (Some ''%PDF-1.4'')) = [ascii ''A blog post.'']
   \<and> downloads_offered (upload_handler
          (sample_env hello_doc (Inr ()) (Inr ()) (Inr [ascii ''result'' \<mapsto> ascii ''A blog post.'']))
          (Some ''%PDF-1.4''))
       = [(ascii ''A blog post.'', ascii ''summary.txt'', ascii ''text/plain'')]
   \<and> model_reply
       (sample_env hello_doc (Inr ()) (Inr ()) (Inl (ascii ''Request timed out.'')))
       () (ascii ''Hello world.'') = Inl (ascii ''Request timed out.'')
   \<and> fst (generate_summary
          (sample_env hello_doc (Inr ()) (Inr ()) (Inl (ascii ''Request timed out.'')))
          () (ascii ''Hello world.'')) = None
   \<and> errors_reported (snd (generate_summary
          (sample_env hello_doc (Inr ()) (Inr ()) (Inl (ascii ''Request timed out.'')))
          () (ascii ''Hello world.'')))
       = [ascii ''Error generating summary: '' @ ascii ''Request timed out.'']
   \<and> summaries_shown (upload_handler
          (sample_env hello_doc (Inr ()) (Inr ()) (Inl (ascii ''Request timed out.'')))
          (Some ''%PDF-1.4'')) = []
   \<and> downloads_offered (upload_handler
          (sample_env hello_doc (Inr ()) (Inr ()) (Inl (ascii ''Request timed out.'')))
          (Some ''%PDF-1.4'')) = []"
proof -
  have lib:
    "NamedTemporaryFile_write
       (sample_env hello_doc (Inr ()) (Inr ()) (Inr [ascii ''result'' \<mapsto> ascii ''A blog post.'']))
       ''%PDF-1.4'' = Inr (ascii ''/tmp/tmpab12.pdf'')
     \<and> fitz_open
       (sample_env hello_doc (Inr ()) (Inr ()) (Inr [ascii ''result'' \<mapsto> ascii ''A blog post.'']))
       (ascii ''/tmp/tmpab12.pdf'') = Inr hello_doc
     \<and> pages hello_doc = map Inr [ascii ''Hello world.'']
     \<and> concat [ascii ''Hello world.''] \<noteq> []
     \<and> split_text
       (sample_env hello_doc (Inr ()) (Inr ()) (Inr [ascii ''result'' \<mapsto> ascii ''A blog post.'']))
       chunker_kwargs (concat [ascii ''Hello world.'']) = Inr [ascii ''Hello world.'']
     \<and> HuggingFaceEmbeddings
       (sample_env hello_doc (Inr ()) (Inr ()) (Inr [ascii ''result'' \<mapsto> ascii ''A blog post.'']))
       embedding_model = Inr ()
     \<and> FAISS_from_texts
       (sample_env hello_doc (Inr ()) (Inr ()) (Inr [ascii ''result'' \<mapsto> ascii ''A blog post.'']))
       [ascii ''Hello world.''] () = Inr ()
     \<and> ChatGroq
       (sample_env hello_doc (Inr ()) (Inr ()) (Inr [ascii ''result'' \<mapsto> ascii ''A blog post.'']))
       llm_kwargs = Inr ()
     \<and> as_retriever
       (sample_env hello_doc (Inr ()) (Inr ()) (Inr [ascii ''result'' \<mapsto> ascii ''A blog post.'']))
       () = Inr ()
     \<and> RetrievalQA_from_chain_type
       (sample_env hello_doc (Inr ()) (Inr ()) (Inr [ascii ''result'' \<mapsto> ascii ''A blog post.'']))
       () () prompt = Inr ()
     \<and> invoke
       (sample_env hello_doc (Inr ()) (Inr ()) (Inr [ascii ''result'' \<mapsto> ascii ''A blog post.'']))
       () [(ascii ''query'', concat [ascii ''Hello world.''])]
         = Inr [ascii ''result'' \<mapsto> ascii ''A blog post.'']
     \<and> [ascii ''result'' \<mapsto> ascii ''A blog post.''] (ascii ''result'') = Some (ascii ''A blog post.'')
     \<and> ascii ''A blog post.'' \<noteq> []"
    by (simp add: sample_env_def hello_doc_def)
  have ok: "summaries_shown (upload_handler
          (sample_env hello_doc (Inr ()) (Inr ()) (Inr [ascii ''result'' \<mapsto> ascii ''A blog post.'']))
          (Some ''%PDF-1.4'')) = [ascii ''A blog post.'']
   \<and> downloads_offered (upload_handler
          (sample_env hello_doc (Inr ()) (Inr ()) (Inr [ascii ''result'' \<mapsto> ascii ''A blog post.'']))
          (Some ''%PDF-1.4''))
       = [(ascii ''A blog post.'', ascii ''summary.txt'', ascii ''text/plain'')]"
    using lib
      summary_shown_iff_nonempty
        [of "sample_env hello_doc (Inr ()) (Inr ()) (Inr [ascii ''result'' \<mapsto> ascii ''A blog post.''])"
            "()" "ascii ''Hello world.''" "''%PDF-1.4''"]
    by blast
  have lib1: "ChatGroq
       (sample_env hello_doc (Inr ()) (Inr ()) (Inr [ascii ''result'' \<mapsto> ascii ''A blog post.'']))
       llm_kwargs = Inr ()
     \<and> as_retriever
       (sample_env hello_doc (Inr ()) (Inr ()) (Inr [ascii ''result'' \<mapsto> ascii ''A blog post.'']))
       () = Inr ()
     \<and> RetrievalQA_from_chain_type
       (sample_env hello_doc (Inr ()) (Inr ()) (Inr [ascii ''result'' \<mapsto> ascii ''A blog post.'']))
       () () prompt = Inr ()
     \<and> invoke
       (sample_env hello_doc (Inr ()) (Inr ()) (Inr [ascii ''result'' \<mapsto> ascii ''A blog post.'']))
       () [(ascii ''query'', ascii ''Hello world.'')]
         = Inr [ascii ''result'' \<mapsto> ascii ''A blog post.'']
     \<and> [ascii ''result'' \<mapsto> ascii ''A blog post.''] (ascii ''result'') = Some (ascii ''A blog post.'')"
    by (simp add: sample_env_def)
  have good: "model_reply
     (sample_env hello_doc (Inr ()) (Inr ()) (Inr [ascii ''result'' \<mapsto> ascii ''A blog post.'']))
     () (ascii ''Hello world.'') = Inr (ascii ''A blog post.'')
   \<and> generate_summary
       (sample_env hello_doc (Inr ()) (Inr ()) (Inr [ascii ''result'' \<mapsto> ascii ''A blog post.'']))
       () (ascii ''Hello world.'')
     = (Some (ascii ''A blog post.''),
        [Call_ChatGroq llm_kwargs, Call_as_retriever, Call_RetrievalQA_from_chain_type prompt,
         Call_invoke [(ascii ''query'', ascii ''Hello world.'')]])"
    using lib1
      summary_shown_iff_nonempty
        [of "sample_env hello_doc (Inr ()) (Inr ()) (Inr [ascii ''result'' \<mapsto> ascii ''A blog post.''])"
            "()" "ascii ''Hello world.''" "''%PDF-1.4''"]
    by blast
  have si: "summarization_input
     (sample_env hello_doc (Inr ()) (Inr ()) (Inl (ascii ''Request timed out.''))) ''%PDF-1.4''
     = Some ((), ascii ''Hello world.'')"
    by (simp add: summarization_input_def get_pdf_text_def get_text_chunks_def
          get_vectorstore_def sample_env_def hello_doc_def)
  have mf: "model_reply
       (sample_env hello_doc (Inr ()) (Inr ()) (Inl (ascii ''Request timed out.'')))
       () (ascii ''Hello world.'') = Inl (ascii ''Request timed out.'')"
    by (simp add: model_reply_def sample_env_def)
  have bad: "fst (generate_summary
          (sample_env hello_doc (Inr ()) (Inr ()) (Inl (ascii ''Request timed out.'')))
          () (ascii ''Hello world.'')) = None
   \<and> errors_reported (snd (generate_summary
          (sample_env hello_doc (Inr ()) (Inr ()) (Inl (ascii ''Request timed out.'')))
          () (ascii ''Hello world.'')))
       = [ascii ''Error generating summary: '' @ ascii ''Request timed out.'']
   \<and> summaries_shown (upload_handler
          (sample_env hello_doc (Inr ()) (Inr ()) (Inl (ascii ''Request timed out.'')))
          (Some ''%PDF-1.4'')) = []
   \<and> downloads_offered (upload_handler
          (sample_env hello_doc (Inr ()) (Inr ()) (Inl (ascii ''Request timed out.'')))
          (Some ''%PDF-1.4'')) = []"
    using si mf
      summary_shown_iff_nonempty
        [of "sample_env hello_doc (Inr ()) (Inr ()) (Inl (ascii ''Request timed out.''))"
            "()" "ascii ''Hello world.''" "''%PDF-1.4''"]
    by simp
  show ?thesis
    using ok good mf bad by blast
qed

text \<open>
  Claim C8, as stated, fails: a run that reaches the summarization block issues no query
  when the construction of the client raises, as it does without an API key.
\<close>

theorem no_client_no_query_counterexample:
  "summarization_input
     (sample_env hello_doc (Inr ()) (Inl (ascii ''GROQ_API_KEY is not set'')) (Inl [])) ''%PDF-1.4''
     = Some ((), ascii ''Hello world.'')
   \<and> summarize_stage
       (sample_env hello_doc (Inr ()) (Inl (ascii ''GROQ_API_KEY is not set'')) (Inl []))
       () (ascii ''Hello world.'')
     = [St_success (emoji_check @ ascii '' Vectorstore created successfully.''),
        St_spinner (emoji_robot @ ascii '' Generating blog-style summary...''),
        Call_ChatGroq llm_kwargs,
        St_error (ascii ''Error generating summary: '' @ ascii ''GROQ_API_KEY is not set'')]
   \<and> queries_issued
       (upload_handler
          (sample_env hello_doc (Inr ()) (Inl (ascii ''GROQ_API_KEY is not set'')) (Inl []))
          (Some ''%PDF-1.4'')) = []"
proof -
  have si: "summarization_input
     (sample_env hello_doc (Inr ()) (Inl (ascii ''GROQ_API_KEY is not set'')) (Inl [])) ''%PDF-1.4''
     = Some ((), ascii ''Hello world.'')"
    by (simp add: summarization_input_def get_pdf_text_def get_text_chunks_def
          get_vectorstore_def sample_env_def hello_doc_def)
  have cb: "\<not> chain_built
      (sample_env hello_doc (Inr ()) (Inl (ascii ''GROQ_API_KEY is not set'')) (Inl [])) ()"
    by (simp add: chain_built_def sample_env_def)
  have st: "summarize_stage
       (sample_env hello_doc (Inr ()) (Inl (ascii ''GROQ_API_KEY is not set'')) (Inl []))
       () (ascii ''Hello world.'')
     = [St_success (emoji_check @ ascii '' Vectorstore created successfully.''),
        St_spinner (emoji_robot @ ascii '' Generating blog-style summary...''),
        Call_ChatGroq llm_kwargs,
        St_error (ascii ''Error generating summary: '' @ ascii ''GROQ_API_KEY is not set'')]"
    by (simp add: summarize_stage_def generate_summary_def show_summary_def summary_error_def
          sample_env_def)
  show ?thesis
    using cb by (simp add: si st run_queries_issued)
qed

text \<open>
  Claim C8, amended. A run issues at most one query: exactly one when it reaches the
  summarization block and the client, the retriever and the chain are constructed, none
  otherwise. The query is \<open>{"query": raw_text}\<close> where \<open>raw_text\<close> is the whole text
  that the extraction returned. A run that reaches the block constructs the client once,
  with the model identifier \<open>meta-llama/llama-4-scout-17b-16e-instruct\<close>, temperature
  0.7 and a request timeout of 30. When a construction raises in a run that reaches the
  block, the run reports, after the errors of the extraction, the one error
  \<open>Error generating summary:\<close> followed by the text of that exception.
\<close>

theorem at_most_one_query:
  "queries_issued (upload_handler E (Some content)) =
     (case summarization_input E content of
        None \<Rightarrow> []
      | Some (vs, t) \<Rightarrow> if chain_built E vs then [[(ascii ''query'', t)]] else [])
   \<and> (\<forall>vs t. summarization_input E content = Some (vs, t) \<longrightarrow>
         (\<exists>p. NamedTemporaryFile_write E content = Inr p \<and> t = fst (get_pdf_text E p))
         \<and> clients_configured (upload_handler E (Some content)) = [llm_kwargs])
   \<and> model_name llm_kwargs = ascii ''meta-llama/llama-4-scout-17b-16e-instruct''
   \<and> temperature llm_kwargs = 7 / 10
   \<and> request_timeout llm_kwargs = 30
   \<and> (\<forall>vs. chain_built E vs = (construction_error E vs = None))
   \<and> (\<forall>vs e. ChatGroq E llm_kwargs = Inl e \<longrightarrow> construction_error E vs = Some e)
   \<and> (\<forall>vs t p e.
         summarization_input E content = Some (vs, t)
       \<and> NamedTemporaryFile_write E content = Inr p
       \<and> construction_error E vs = Some e
       \<longrightarrow> queries_issued (upload_handler E (Some content)) = []
           \<and> errors_reported (upload_handler E (Some content)) =
               errors_reported (snd (get_pdf_text E p))
               @ [ascii ''Error generating summary: '' @ e])"
proof -
  have a: "\<forall>vs t. summarization_input E content = Some (vs, t) \<longrightarrow>
         (\<exists>p. NamedTemporaryFile_write E content = Inr p \<and> t = fst (get_pdf_text E p))
         \<and> clients_configured (upload_handler E (Some content)) = [llm_kwargs]"
    using summarization_input_text [of E content]
    by (auto simp: run_clients_configured)
  have b: "\<forall>vs e. ChatGroq E llm_kwargs = Inl e \<longrightarrow> construction_error E vs = Some e"
    by (simp add: construction_error_def)
  have c: "\<forall>vs t p e.
         summarization_input E content = Some (vs, t)
       \<and> NamedTemporaryFile_write E content = Inr p
       \<and> construction_error E vs = Some e
       \<longrightarrow> queries_issued (upload_handler E (Some content)) = []
           \<and> errors_reported (upload_handler E (Some content)) =
               errors_reported (snd (get_pdf_text E p))
               @ [ascii ''Error generating summary: '' @ e]"
  proof (intro allI impI, elim conjE)
    fix vs t p e
    assume si: "summarization_input E content = Some (vs, t)"
      and w: "NamedTemporaryFile_write E content = Inr p"
      and ce: "construction_error E vs = Some e"
    have "errors_reported (snd (generate_summary E vs t))
            = [ascii ''Error generating summary: '' @ e]"
      using construction_error_reply [OF ce, of t] by (simp add: generate_summary_reply(2))
    then show "queries_issued (upload_handler E (Some content)) = []
           \<and> errors_reported (upload_handler E (Some content)) =
               errors_reported (snd (get_pdf_text E p))
               @ [ascii ''Error generating summary: '' @ e]"
      using run_errors_reported [OF si w] si ce
      by (simp add: run_queries_issued chain_built_iff)
  qed
  show ?thesis
    using a b c by (simp add: run_queries_issued llm_kwargs_def chain_built_iff)
qed

theorem at_most_one_query_witness:
  "summarization_input
     (sample_env hello_doc (Inr ()) (Inr ()) (Inr [ascii ''result'' \<mapsto> ascii ''A blog post.''])) ''%PDF-1.4''
     = Some ((), ascii ''Hello world.'')
   \<and> chain_built
       (sample_env hello_doc (Inr ()) (Inr ()) (Inr [ascii ''result'' \<mapsto> ascii ''A blog post.''])) ()
   \<and> queries_issued (upload_handler
       (sample_env hello_doc (Inr ()) (Inr ()) (Inr [ascii ''result'' \<mapsto> ascii ''A blog post.'']))
       (Some ''%PDF-1.4'')) = [[(ascii ''query'', ascii ''Hello world.'')]]
   \<and> clients_configured (upload_handler
       (sample_env hello_doc (Inr ()) (Inr ()) (Inr [ascii ''result'' \<mapsto> ascii ''A blog post.'']))
       (Some ''%PDF-1.4'')) = [llm_kwargs]
   \<and> summarization_input
       (sample_env hello_doc (Inr ()) (Inl (ascii ''GROQ_API_KEY is not set'')) (Inl [])) ''%PDF-1.4''
     = Some ((), ascii ''Hello world.'')
   \<and> ChatGroq (sample_env hello_doc (Inr ()) (Inl (ascii ''GROQ_API_KEY is not set'')) (Inl []))
       llm_kwargs = Inl (ascii ''GROQ_API_KEY is not set'')
   \<and> queries_issued (upload_handler
       (sample_env hello_doc (Inr ()) (Inl (ascii ''GROQ_API_KEY is not set'')) (Inl []))
       (Some ''%PDF-1.4'')) = []
   \<and> errors_reported (upload_handler
       (sample_env hello_doc (Inr ()) (Inl (ascii ''GROQ_API_KEY is not set'')) (Inl []))
       (Some ''%PDF-1.4''))
     = [ascii ''Error generating summary: '' @ ascii ''GROQ_API_KEY is not set'']"
proof -
  have si: "summarization_input
     (sample_env hello_doc (Inr ()) (Inr ()) (Inr [ascii ''result'' \<mapsto> ascii ''A blog post.''])) ''%PDF-1.4''
     = Some ((), ascii ''Hello world.'')"
    by (simp add: summarization_input_def get_pdf_text_def get_text_chunks_def
          get_vectorstore_def sample_env_def hello_doc_def)
  have cb: "chain_built
       (sample_env hello_doc (Inr ()) (Inr ()) (Inr [ascii ''result'' \<mapsto> ascii ''A blog post.''])) ()"
    by (simp add: chain_built_def sample_env_def)
  have ok: "queries_issued (upload_handler
       (sample_env hello_doc (Inr ()) (Inr ()) (Inr [ascii ''result'' \<mapsto> ascii ''A blog post.'']))
       (Some ''%PDF-1.4'')) = [[(ascii ''query'', ascii ''Hello world.'')]]
   \<and> clients_configured (upload_handler
       (sample_env hello_doc (Inr ()) (Inr ()) (Inr [ascii ''result'' \<mapsto> ascii ''A blog post.'']))
       (Some ''%PDF-1.4'')) = [llm_kwargs]"
    using si cb
      at_most_one_query
        [of "sample_env hello_doc (Inr ()) (Inr ()) (Inr [ascii ''result'' \<mapsto> ascii ''A blog post.''])"
            "''%PDF-1.4''"]
    by simp
  have si': "summarization_input
       (sample_env hello_doc (Inr ()) (Inl (ascii ''GROQ_API_KEY is not set'')) (Inl [])) ''%PDF-1.4''
     = Some ((), ascii ''Hello world.'')"
    by (simp add: summarization_input_def get_pdf_text_def get_text_chunks_def
          get_vectorstore_def sample_env_def hello_doc_def)
  have w: "NamedTemporaryFile_write
       (sample_env hello_doc (Inr ()) (Inl (ascii ''GROQ_API_KEY is not set'')) (Inl [])) ''%PDF-1.4''
     = Inr (ascii ''/tmp/tmpab12.pdf'')"
    by (simp add: sample_env_def)
  have g: "ChatGroq (sample_env hello_doc (Inr ()) (Inl (ascii ''GROQ_API_KEY is not set'')) (Inl []))
       llm_kwargs = Inl (ascii ''GROQ_API_KEY is not set'')"
    by (simp add: sample_env_def)
  have ex: "errors_reported (snd (get_pdf_text
       (sample_env hello_doc (Inr ()) (Inl (ascii ''GROQ_API_KEY is not set'')) (Inl []))
       (ascii ''/tmp/tmpab12.pdf''))) = []"
    by (simp add: get_pdf_text_def sample_env_def hello_doc_def)
  note th = at_most_one_query
        [of "sample_env hello_doc (Inr ()) (Inl (ascii ''GROQ_API_KEY is not set'')) (Inl [])"
            "''%PDF-1.4''"]
  have ce: "construction_error
       (sample_env hello_doc (Inr ()) (Inl (ascii ''GROQ_API_KEY is not set'')) (Inl [])) ()
     = Some (ascii ''GROQ_API_KEY is not set'')"
    using th g by blast
  have bad: "queries_issued (upload_handler
       (sample_env hello_doc (Inr ()) (Inl (ascii ''GROQ_API_KEY is not set'')) (Inl []))
       (Some ''%PDF-1.4'')) = []
   \<and> errors_reported (upload_handler
       (sample_env hello_doc (Inr ()) (Inl (ascii ''GROQ_API_KEY is not set'')) (Inl []))
       (Some ''%PDF-1.4''))
     = errors_reported (snd (get_pdf_text
         (sample_env hello_doc (Inr ()) (Inl (ascii ''GROQ_API_KEY is not set'')) (Inl []))
         (ascii ''/tmp/tmpab12.pdf'')))
       @ [ascii ''Error generating summary: '' @ ascii ''GROQ_API_KEY is not set'']"
    using th si' w ce by blast
  show ?thesis
    using si cb ok si' g bad ex by simp
qed

text \<open>
  Claim C10, as stated, fails: a run in which the summarization succeeds with the empty
  string can report an error. Here page 2 of the PDF raises, the extraction reports it and
  returns the text of page 1, the run goes on with that text, and the chain answers with
  the empty string.
\<close>

theorem empty_summary_with_error_counterexample:
  "NamedTemporaryFile_write
     (sample_env broken_doc (Inr ()) (Inr ()) (Inr [ascii ''result'' \<mapsto> []])) ''%PDF-1.4''
     = Inr (ascii ''/tmp/tmpab12.pdf'')
   \<and> summarization_input
       (sample_env broken_doc (Inr ()) (Inr ()) (Inr [ascii ''result'' \<mapsto> []])) ''%PDF-1.4''
     = Some ((), ascii ''Abstract'')
   \<and> model_reply
       (sample_env broken_doc (Inr ()) (Inr ()) (Inr [ascii ''result'' \<mapsto> []])) () (ascii ''Abstract'')
     = Inr []
   \<and> errors_reported (upload_handler
       (sample_env broken_doc (Inr ()) (Inr ()) (Inr [ascii ''result'' \<mapsto> []])) (Some ''%PDF-1.4''))
     = [ascii ''Error extracting text from PDF: '' @ ascii ''cannot load page 2'']"
proof -
  have w: "NamedTemporaryFile_write
     (sample_env broken_doc (Inr ()) (Inr ()) (Inr [ascii ''result'' \<mapsto> []])) ''%PDF-1.4''
     = Inr (ascii ''/tmp/tmpab12.pdf'')"
    by (simp add: sample_env_def)
  have si: "summarization_input
       (sample_env broken_doc (Inr ()) (Inr ()) (Inr [ascii ''result'' \<mapsto> []])) ''%PDF-1.4''
     = Some ((), ascii ''Abstract'')"
    by (simp add: summarization_input_def get_pdf_text_def get_text_chunks_def
          get_vectorstore_def sample_env_def broken_doc_def)
  have mr: "model_reply
       (sample_env broken_doc (Inr ()) (Inr ()) (Inr [ascii ''result'' \<mapsto> []])) () (ascii ''Abstract'')
     = Inr []"
    by (simp add: model_reply_def sample_env_def)
  have ex: "errors_reported (snd (get_pdf_text
       (sample_env broken_doc (Inr ()) (Inr ()) (Inr [ascii ''result'' \<mapsto> []]))
       (ascii ''/tmp/tmpab12.pdf'')))
     = [ascii ''Error extracting text from PDF: '' @ ascii ''cannot load page 2'']"
    by (simp add: get_pdf_text_def sample_env_def broken_doc_def extraction_error_def)
  show ?thesis
    using run_errors_reported [OF si w]
    by (simp add: w si mr ex generate_summary_reply(2))
qed

text \<open>
  Claim C10, amended. When a run reaches the summarization block and the chain answers
  with the empty string, the run shows no summary and offers no download, and the block and
  the display report no error: the errors of the run are exactly those that the extraction
  reported, so the run reports no error at all when the PDF opened, no page raised and
  \<open>doc.close()\<close> did not raise.
\<close>

theorem empty_summary_is_silent:
  assumes "NamedTemporaryFile_write E content = Inr p"
    and "summarization_input E content = Some (vs, t)"
    and "model_reply E vs t = Inr []"
  shows "summaries_shown (upload_handler E (Some content)) = []
         \<and> downloads_offered (upload_handler E (Some content)) = []
         \<and> fst (generate_summary E vs t) = Some []
         \<and> errors_reported (summarize_stage E vs t) = []
         \<and> errors_reported (upload_handler E (Some content))
             = errors_reported (snd (get_pdf_text E p))
         \<and> (\<forall>doc. fitz_open E p = Inr doc \<and> first_failure (pages doc) = None
                   \<and> close_raises doc = None
               \<longrightarrow> errors_reported (upload_handler E (Some content)) = [])"
proof -
  have g: "fst (generate_summary E vs t) = Some []"
    using assms(3) by (simp add: generate_summary_reply(1))
  have e: "errors_reported (snd (generate_summary E vs t)) = []"
    using assms(3) by (simp add: generate_summary_reply(2))
  have r: "errors_reported (upload_handler E (Some content))
             = errors_reported (snd (get_pdf_text E p))"
    using e run_errors_reported [OF assms(2) assms(1)] by simp
  have q: "\<forall>doc. fitz_open E p = Inr doc \<and> first_failure (pages doc) = None
                   \<and> close_raises doc = None
               \<longrightarrow> errors_reported (upload_handler E (Some content)) = []"
    using r by (auto simp: get_pdf_text_opened)
  show ?thesis
    using assms g e r q
    by (simp add: run_summaries_shown run_downloads_offered show_summary_def
          summarize_stage_def)
qed

theorem empty_summary_is_silent_witness:
  "NamedTemporaryFile_write
     (sample_env hello_doc (Inr ()) (Inr ()) (Inr [ascii ''result'' \<mapsto> []])) ''%PDF-1.4''
     = Inr (ascii ''/tmp/tmpab12.pdf'')
   \<and> summarization_input
     (sample_env hello_doc (Inr ()) (Inr ()) (Inr [ascii ''result'' \<mapsto> []])) ''%PDF-1.4''
     = Some ((), ascii ''Hello world.'')
   \<and> model_reply
       (sample_env hello_doc (Inr ()) (Inr ()) (Inr [ascii ''result'' \<mapsto> []])) () (ascii ''Hello world.'')
     = Inr []
   \<and> fitz_open (sample_env hello_doc (Inr ()) (Inr ()) (Inr [ascii ''result'' \<mapsto> []]))
       (ascii ''/tmp/tmpab12.pdf'') = Inr hello_doc
   \<and> first_failure (pages hello_doc) = None
   \<and> close_raises hello_doc = None
   \<and> summaries_shown (upload_handler
       (sample_env hello_doc (Inr ()) (Inr ()) (Inr [ascii ''result'' \<mapsto> []])) (Some ''%PDF-1.4'')) = []
   \<and> downloads_offered (upload_handler
       (sample_env hello_doc (Inr ()) (Inr ()) (Inr [ascii ''result'' \<mapsto> []])) (Some ''%PDF-1.4'')) = []
   \<and> errors_reported (upload_handler
       (sample_env hello_doc (Inr ()) (Inr ()) (Inr [ascii ''result'' \<mapsto> []])) (Some ''%PDF-1.4'')) = []"
proof -
  have a: "NamedTemporaryFile_write
     (sample_env hello_doc (Inr ()) (Inr ()) (Inr [ascii ''result'' \<mapsto> []])) ''%PDF-1.4''
     = Inr (ascii ''/tmp/tmpab12.pdf'')"
    by (simp add: sample_env_def)
  have si: "summarization_input
     (sample_env hello_doc (Inr ()) (Inr ()) (Inr [ascii ''result'' \<mapsto> []])) ''%PDF-1.4''
     = Some ((), ascii ''Hello world.'')"
    by (simp add: summarization_input_def get_pdf_text_def get_text_chunks_def
          get_vectorstore_def sample_env_def hello_doc_def)
  have mr: "model_reply
       (sample_env hello_doc (Inr ()) (Inr ()) (Inr [ascii ''result'' \<mapsto> []])) () (ascii ''Hello world.'')
     = Inr []"
    by (simp add: model_reply_def sample_env_def)
  have d: "fitz_open (sample_env hello_doc (Inr ()) (Inr ()) (Inr [ascii ''result'' \<mapsto> []]))
       (ascii ''/tmp/tmpab12.pdf'') = Inr hello_doc
   \<and> first_failure (pages hello_doc) = None
   \<and> close_raises hello_doc = None"
    by (simp add: sample_env_def hello_doc_def)
  show ?thesis
    using a si mr d empty_summary_is_silent [OF a si mr] by blast
qed

end
